theory Spec2Isabelle
  imports Main "HOL-Library.Sublist"
begin

section \<open>The RAG query service of \<^verbatim>\<open>app.py\<close>\<close>

text \<open>
  \<^verbatim>\<open>app.py\<close> defines two request handlers. \<^verbatim>\<open>query(q)\<close> asks the chromadb
  collection for the nearest document, builds a prompt from it and the question, and
  returns what \<^verbatim>\<open>ollama.generate\<close> answers. \<^verbatim>\<open>root()\<close> returns a fixed
  dictionary.

  The two libraries are not part of the program. They are parameters of the model: an
  environment holds the collection's \<^verbatim>\<open>query\<close> method and \<^verbatim>\<open>ollama.generate\<close> as
  functions that take the state of their side, and return either a raised exception or a
  value, together with the state they leave behind. Each handler returns its result, the
  outbound calls it made in order, and both final states.
\<close>

subsection \<open>Values\<close>

text \<open>
  Python exceptions. \<open>IndexError\<close> is the one the handler's own indexing can raise;
  a library raises whatever it likes, \<open>LibraryError\<close> with its message included.
\<close>

datatype exn = IndexError | LibraryError string

text \<open>
  What \<^verbatim>\<open>collection.query\<close> returns: of the dictionary's keys the handler reads
  \<^verbatim>\<open>"documents"\<close> only, a list with one list of texts per query text.
\<close>

record query_result =
  documents :: "string list list"

text \<open>What \<^verbatim>\<open>ollama.generate\<close> returns: the handler reads \<^verbatim>\<open>"response"\<close> only.\<close>

record generate_response =
  response :: string

text \<open>The JSON values the handlers return: strings and objects (keys in source order).\<close>

datatype json = JString string | JObject "(string \<times> json) list"

text \<open>The outbound calls, with the arguments the source passes by keyword.\<close>

datatype call =
    is_CollectionQuery: CollectionQuery (query_texts: "string list") (n_results: nat)
  | is_OllamaGenerate: OllamaGenerate (model: string) (prompt: string)

record ('s, 'g) env =
  collection_query :: "'s \<Rightarrow> string list \<Rightarrow> nat \<Rightarrow> (exn + query_result) \<times> 's"
  ollama_generate :: "'g \<Rightarrow> string \<Rightarrow> string \<Rightarrow> (exn + generate_response) \<times> 'g"

record ('s, 'g) outcome =
  result :: "exn + json"
  calls :: "call list"
  store :: 's
  backend :: 'g

subsection \<open>The handlers\<close>

text \<open>Python's \<^verbatim>\<open>xs[i]\<close> for an index that is not negative.\<close>

definition index :: "'a list \<Rightarrow> nat \<Rightarrow> exn + 'a" where
  "index xs i = (if i < length xs then Inr (xs ! i) else Inl IndexError)"

text \<open>
  \<^verbatim>\<open>context = results["documents"][0][0] if results["documents"] else ""\<close>:
  a list is true when it is not empty.
\<close>

definition extract_context :: "query_result \<Rightarrow> exn + string" where
  "extract_context results =
     (if documents results \<noteq> [] then
        (case index (documents results) 0 of
           Inl e \<Rightarrow> Inl e
         | Inr d \<Rightarrow> index d 0)
      else Inr '''')"

text \<open>
  \<^verbatim>\<open>f"Context:\n{context}\n\nQuestion: {q}\n\nAnswer clearly and concisely:"\<close>
\<close>

definition make_prompt :: "string \<Rightarrow> string \<Rightarrow> string" where
  "make_prompt context q =
     ''Context:\<newline>'' @ context @ ''\<newline>\<newline>Question: '' @ q
       @ ''\<newline>\<newline>Answer clearly and concisely:''"

text \<open>
  \<^verbatim>\<open>query(q)\<close>. An exception raised by a call, or by the indexing, ends the handler there:
  the source has no \<^verbatim>\<open>try\<close>.
\<close>

definition query :: "('s, 'g) env \<Rightarrow> 's \<Rightarrow> 'g \<Rightarrow> string \<Rightarrow> ('s, 'g) outcome" where
  "query env s g q =
     (case collection_query env s [q] 1 of
        (Inl e, s') \<Rightarrow>
          \<lparr>result = Inl e, calls = [CollectionQuery [q] 1], store = s', backend = g\<rparr>
      | (Inr results, s') \<Rightarrow>
          (case extract_context results of
             Inl e \<Rightarrow>
               \<lparr>result = Inl e, calls = [CollectionQuery [q] 1], store = s', backend = g\<rparr>
           | Inr context \<Rightarrow>
               (case ollama_generate env g ''tinyllama'' (make_prompt context q) of
                  (Inl e, g') \<Rightarrow>
                    \<lparr>result = Inl e,
                     calls = [CollectionQuery [q] 1,
                              OllamaGenerate ''tinyllama'' (make_prompt context q)],
                     store = s', backend = g'\<rparr>
                | (Inr answer, g') \<Rightarrow>
                    \<lparr>result = Inr (JObject [(''answer'', JString (response answer))]),
                     calls = [CollectionQuery [q] 1,
                              OllamaGenerate ''tinyllama'' (make_prompt context q)],
                     store = s', backend = g'\<rparr>)))"

text \<open>\<^verbatim>\<open>root()\<close>: no call, no use of the collection or of ollama.\<close>

definition root_payload :: json where
  "root_payload =
     JObject
       [(''message'', JString ''NextWork RAG API is running''),
        (''endpoints'',
         JObject
           [(''POST /query'', JString ''Query the knowledge base with a question''),
            (''GET /docs'', JString ''Interactive API documentation (Swagger UI)''),
            (''GET /redoc'', JString ''Alternative API documentation (ReDoc)'')])]"

definition root :: "('s, 'g) env \<Rightarrow> 's \<Rightarrow> 'g \<Rightarrow> ('s, 'g) outcome" where
  "root env s g = \<lparr>result = Inr root_payload, calls = [], store = s, backend = g\<rparr>"

subsection \<open>Test doubles\<close>

text \<open>
  Stand-ins for the two libraries, to run the handlers on concrete inputs. The stub store
  answers every lookup with the same result and leaves its state alone; the failing store
  raises. The echo backend answers with the prompt it was given and counts its calls in
  its state; the failing backend raises, and counts too.
\<close>

definition stub_store ::
  "query_result \<Rightarrow> 's \<Rightarrow> string list \<Rightarrow> nat \<Rightarrow> (exn + query_result) \<times> 's" where
  "stub_store r s texts n = (Inr r, s)"

definition failing_store ::
  "exn \<Rightarrow> 's \<Rightarrow> string list \<Rightarrow> nat \<Rightarrow> (exn + query_result) \<times> 's" where
  "failing_store e s texts n = (Inl e, s)"

definition echo_generate ::
  "nat \<Rightarrow> string \<Rightarrow> string \<Rightarrow> (exn + generate_response) \<times> nat" where
  "echo_generate g m p = (Inr \<lparr>response = p\<rparr>, Suc g)"

definition failing_generate ::
  "exn \<Rightarrow> nat \<Rightarrow> string \<Rightarrow> string \<Rightarrow> (exn + generate_response) \<times> nat" where
  "failing_generate e g m p = (Inl e, Suc g)"

definition stub_env :: "query_result \<Rightarrow> ('s, nat) env" where
  "stub_env r = \<lparr>collection_query = stub_store r, ollama_generate = echo_generate\<rparr>"

definition store_down_env :: "exn \<Rightarrow> ('s, nat) env" where
  "store_down_env e = \<lparr>collection_query = failing_store e, ollama_generate = echo_generate\<rparr>"

definition backend_down_env :: "query_result \<Rightarrow> exn \<Rightarrow> ('s, nat) env" where
  "backend_down_env r e =
     \<lparr>collection_query = stub_store r, ollama_generate = failing_generate e\<rparr>"

section \<open>Properties\<close>

subsection \<open>Shared facts\<close>

lemmas stub_defs =
  stub_env_def store_down_env_def backend_down_env_def
  stub_store_def failing_store_def echo_generate_def failing_generate_def

lemma extract_context_cases:
  "extract_context r =
     (case documents r of
        [] \<Rightarrow> Inr ''''
      | [] # _ \<Rightarrow> Inl IndexError
      | (t # _) # _ \<Rightarrow> Inr t)"
  by (simp add: extract_context_def index_def split: list.splits)

lemma query_lookup_raises:
  assumes "collection_query env s [q] 1 = (Inl e, s')"
  shows "query env s g q =
           \<lparr>result = Inl e, calls = [CollectionQuery [q] 1], store = s', backend = g\<rparr>"
  using assms by (simp add: query_def)

lemma query_extract_raises:
  assumes "collection_query env s [q] 1 = (Inr r, s')"
    and "extract_context r = Inl e"
  shows "query env s g q =
           \<lparr>result = Inl e, calls = [CollectionQuery [q] 1], store = s', backend = g\<rparr>"
  using assms by (simp add: query_def)

lemma query_generate_raises:
  assumes "collection_query env s [q] 1 = (Inr r, s')"
    and "extract_context r = Inr c"
    and "ollama_generate env g ''tinyllama'' (make_prompt c q) = (Inl e, g')"
  shows "query env s g q =
           \<lparr>result = Inl e,
            calls = [CollectionQuery [q] 1, OllamaGenerate ''tinyllama'' (make_prompt c q)],
            store = s', backend = g'\<rparr>"
  using assms by (simp add: query_def)

lemma query_generate_returns:
  assumes "collection_query env s [q] 1 = (Inr r, s')"
    and "extract_context r = Inr c"
    and "ollama_generate env g ''tinyllama'' (make_prompt c q) = (Inr a, g')"
  shows "query env s g q =
           \<lparr>result = Inr (JObject [(''answer'', JString (response a))]),
            calls = [CollectionQuery [q] 1, OllamaGenerate ''tinyllama'' (make_prompt c q)],
            store = s', backend = g'\<rparr>"
  using assms by (simp add: query_def)

lemmas query_path_simps =
  query_lookup_raises query_extract_raises query_generate_raises query_generate_returns

text \<open>The four ways through the handler, as one case distinction.\<close>

lemma query_paths:
  obtains (lookup_raises) e s' where "collection_query env s [q] 1 = (Inl e, s')"
  | (extract_raises) r s' e where "collection_query env s [q] 1 = (Inr r, s')"
      and "extract_context r = Inl e"
  | (generate_raises) r s' c e g' where "collection_query env s [q] 1 = (Inr r, s')"
      and "extract_context r = Inr c"
      and "ollama_generate env g ''tinyllama'' (make_prompt c q) = (Inl e, g')"
  | (generate_returns) r s' c a g' where "collection_query env s [q] 1 = (Inr r, s')"
      and "extract_context r = Inr c"
      and "ollama_generate env g ''tinyllama'' (make_prompt c q) = (Inr a, g')"
proof (cases "collection_query env s [q] 1")
  case lookup: (Pair x s')
  show thesis
  proof (cases x)
    case (Inl e)
    with lookup show thesis by (auto intro: lookup_raises)
  next
    case r: (Inr r)
    show thesis
    proof (cases "extract_context r")
      case (Inl e)
      with lookup r show thesis by (auto intro: extract_raises)
    next
      case c: (Inr c)
      show thesis
      proof (cases "ollama_generate env g ''tinyllama'' (make_prompt c q)")
        case gen: (Pair y g')
        show thesis
        proof (cases y)
          case (Inl e)
          with lookup r c gen show thesis by (auto intro: generate_raises)
        next
          case (Inr a)
          with lookup r c gen show thesis by (auto intro: generate_returns)
        qed
      qed
    qed
  qed
qed

lemma query_store: "store (query env s g q) = snd (collection_query env s [q] 1)"
  by (cases rule: query_paths [where env = env and s = s and q = q and g = g]) (simp_all add: query_path_simps)

lemma query_calls_generate:
  assumes "collection_query env s [q] 1 = (Inr r, s')"
    and "extract_context r = Inr c"
  shows "calls (query env s g q) =
           [CollectionQuery [q] 1, OllamaGenerate ''tinyllama'' (make_prompt c q)]"
proof (cases "ollama_generate env g ''tinyllama'' (make_prompt c q)")
  case gen: (Pair y g')
  show ?thesis
  proof (cases y)
    case (Inl e)
    with gen show ?thesis
      by (simp add: query_generate_raises [OF assms])
  next
    case (Inr a)
    with gen show ?thesis
      by (simp add: query_generate_returns [OF assms])
  qed
qed

subsection \<open>Context extraction\<close>

text \<open>
  C6: the guard of the context extraction looks at the outer documents list only. On
  \<^verbatim>\<open>{"documents": [[]]}\<close> the second index raises IndexError, and the extraction
  yields a context exactly when the documents list is empty or its first list is not.
\<close>

theorem extract_context_guards_outer_list_only:
  "extract_context \<lparr>documents = [[]]\<rparr> = Inl IndexError
   \<and> (extract_context r = Inl IndexError) = (\<exists>ds. documents r = [] # ds)
   \<and> (extract_context r = Inr '''') = (documents r = [] \<or> (\<exists>ts ds. documents r = ('''' # ts) # ds))
   \<and> ((\<exists>c. extract_context r = Inr c)
        = (documents r = [] \<or> (\<exists>t ts ds. documents r = (t # ts) # ds)))"
  by (auto simp: extract_context_cases split: list.splits)

text \<open>
  C1: on the result a lookup with no match gives, \<^verbatim>\<open>{"documents": [[]]}\<close>, the handler
  raises IndexError after the lookup and never calls the generation backend.
\<close>

theorem query_no_match_raises:
  "query (stub_env \<lparr>documents = [[]]\<rparr>) ([] :: string list) 0 ''anything'' =
     \<lparr>result = Inl IndexError, calls = [CollectionQuery [''anything''] 1],
      store = [], backend = 0\<rparr>"
  by (simp add: query_def stub_defs extract_context_cases)

subsection \<open>The prompt\<close>

text \<open>
  C2: when the first list of documents of the lookup's result starts with the text \<open>T\<close>, the
  handler calls the generation backend once, with the prompt made of the header line, \<open>T\<close>,
  a blank line, the question line with \<open>q\<close>, a blank line and the instruction: \<open>T\<close> is in
  the prompt verbatim and \<open>q\<close> comes after it.
\<close>

theorem query_prompt_has_context_then_question:
  assumes "collection_query env s [q] 1 = (Inr r, s')"
    and "documents r = (T # ts) # ds"
  shows "calls (query env s g q) =
           [CollectionQuery [q] 1,
            OllamaGenerate ''tinyllama''
              (''Context:\<newline>'' @ T @ ''\<newline>\<newline>Question: '' @ q
                 @ ''\<newline>\<newline>Answer clearly and concisely:'')]"
proof -
  from assms(2) have c: "extract_context r = Inr T"
    by (simp add: extract_context_cases)
  show ?thesis
    by (simp add: query_calls_generate [OF assms(1) c] make_prompt_def)
qed

theorem query_prompt_has_context_then_question_witness:
  "collection_query (stub_env \<lparr>documents = [[''Paris is the capital of France.'']]\<rparr>)
       [''Paris is the capital of France.''] [''What is the capital of France?''] 1
     = (Inr \<lparr>documents = [[''Paris is the capital of France.'']]\<rparr>,
        [''Paris is the capital of France.''])
   \<and> documents \<lparr>documents = [[''Paris is the capital of France.'']]\<rparr>
     = (''Paris is the capital of France.'' # []) # []
   \<and> calls (query (stub_env \<lparr>documents = [[''Paris is the capital of France.'']]\<rparr>)
         [''Paris is the capital of France.''] 0 ''What is the capital of France?'')
     = [CollectionQuery [''What is the capital of France?''] 1,
        OllamaGenerate ''tinyllama''
          ''Context:\<newline>Paris is the capital of France.\<newline>\<newline>Question: What is the capital of France?\<newline>\<newline>Answer clearly and concisely:'']"
proof -
  let ?r = "\<lparr>documents = [[''Paris is the capital of France.'']]\<rparr>"
  let ?s = "[''Paris is the capital of France.'']"
  let ?q = "''What is the capital of France?''"
  have h1: "collection_query (stub_env ?r) ?s [?q] 1 = (Inr ?r, ?s)"
    by (simp add: stub_defs)
  have h2: "documents ?r = (''Paris is the capital of France.'' # []) # []"
    by simp
  from query_prompt_has_context_then_question [OF h1 h2, of 0] h1 h2
  show ?thesis by simp
qed

text \<open>
  C3, as stated: with an empty documents list and the question \<open>anything\<close> the context is
  empty, but the prompt the backend gets has three newlines between \<open>Context:\<close> and
  \<open>Question:\<close>, so the marker with two is not in it.
\<close>

theorem query_empty_store_marker_counterexample:
  "extract_context \<lparr>documents = []\<rparr> = Inr ''''
   \<and> calls (query (stub_env \<lparr>documents = []\<rparr>) ([] :: string list) 0 ''anything'')
     = [CollectionQuery [''anything''] 1,
        OllamaGenerate ''tinyllama''
          ''Context:\<newline>\<newline>\<newline>Question: anything\<newline>\<newline>Answer clearly and concisely:'']
   \<and> \<not> sublist ''Context:\<newline>\<newline>Question: anything''
         ''Context:\<newline>\<newline>\<newline>Question: anything\<newline>\<newline>Answer clearly and concisely:''"
proof (intro conjI)
  show "extract_context \<lparr>documents = []\<rparr> = Inr ''''"
    by (simp add: extract_context_cases)
  show "calls (query (stub_env \<lparr>documents = []\<rparr>) ([] :: string list) 0 ''anything'')
     = [CollectionQuery [''anything''] 1,
        OllamaGenerate ''tinyllama''
          ''Context:\<newline>\<newline>\<newline>Question: anything\<newline>\<newline>Answer clearly and concisely:'']"
    by (simp add: query_def stub_defs extract_context_cases make_prompt_def)
  show "\<not> sublist ''Context:\<newline>\<newline>Question: anything''
         ''Context:\<newline>\<newline>\<newline>Question: anything\<newline>\<newline>Answer clearly and concisely:''"
    by code_simp
qed

text \<open>
  C3, amended: when the lookup's result has an empty documents list and the question is
  \<open>anything\<close>, the context is empty and the prompt sent to the backend is the template
  with nothing between its first newline and its blank line; it contains \<open>Context:\<close>,
  three newlines and \<open>Question: anything\<close>.
\<close>

theorem query_empty_documents_prompt:
  assumes "collection_query env s [''anything''] 1 = (Inr r, s')"
    and "documents r = []"
  shows "extract_context r = Inr ''''
    \<and> calls (query env s g ''anything'')
      = [CollectionQuery [''anything''] 1,
         OllamaGenerate ''tinyllama''
           ''Context:\<newline>\<newline>\<newline>Question: anything\<newline>\<newline>Answer clearly and concisely:'']
    \<and> sublist ''Context:\<newline>\<newline>\<newline>Question: anything''
         (prompt (calls (query env s g ''anything'') ! 1))"
proof -
  from assms(2) have c: "extract_context r = Inr ''''"
    by (simp add: extract_context_cases)
  have p: "make_prompt '''' ''anything''
    = ''Context:\<newline>\<newline>\<newline>Question: anything\<newline>\<newline>Answer clearly and concisely:''"
    by (simp add: make_prompt_def)
  have cs: "calls (query env s g ''anything'')
      = [CollectionQuery [''anything''] 1,
         OllamaGenerate ''tinyllama''
           ''Context:\<newline>\<newline>\<newline>Question: anything\<newline>\<newline>Answer clearly and concisely:'']"
    by (simp add: query_calls_generate [OF assms(1) c] p)
  have sub: "sublist ''Context:\<newline>\<newline>\<newline>Question: anything''
     ''Context:\<newline>\<newline>\<newline>Question: anything\<newline>\<newline>Answer clearly and concisely:''"
    by code_simp
  from c cs sub show ?thesis by simp
qed

theorem query_empty_documents_prompt_witness:
  "collection_query (stub_env \<lparr>documents = []\<rparr>) ([] :: string list) [''anything''] 1
     = (Inr \<lparr>documents = []\<rparr>, [])
   \<and> documents \<lparr>documents = []\<rparr> = []
   \<and> result (query (stub_env \<lparr>documents = []\<rparr>) ([] :: string list) 0 ''anything'')
     = Inr (JObject [(''answer'', JString
         ''Context:\<newline>\<newline>\<newline>Question: anything\<newline>\<newline>Answer clearly and concisely:'')])
   \<and> sublist ''Context:\<newline>\<newline>\<newline>Question: anything''
        (prompt (calls (query (stub_env \<lparr>documents = []\<rparr>) ([] :: string list) 0 ''anything'') ! 1))"
proof -
  let ?r = "\<lparr>documents = []\<rparr>"
  have h1: "collection_query (stub_env ?r) ([] :: string list) [''anything''] 1 = (Inr ?r, [])"
    by (simp add: stub_defs)
  have h2: "documents ?r = []"
    by simp
  have res: "result (query (stub_env ?r) ([] :: string list) 0 ''anything'')
     = Inr (JObject [(''answer'', JString
         ''Context:\<newline>\<newline>\<newline>Question: anything\<newline>\<newline>Answer clearly and concisely:'')])"
    by (simp add: query_def stub_defs extract_context_cases make_prompt_def)
  from query_empty_documents_prompt [OF h1 h2, of 0] h1 h2 res
  show ?thesis by simp
qed

subsection \<open>The response\<close>

text \<open>
  C4: whenever the handler returns a value, the lookup and the generation call have both
  returned, and the value is the JSON object with the one key \<open>answer\<close>, holding as a
  string the text the generation backend returned (which may be empty).
\<close>

theorem query_returns_answer:
  assumes "result (query env s g q) = Inr j"
  shows "\<exists>r s' c a g'.
           collection_query env s [q] 1 = (Inr r, s')
         \<and> extract_context r = Inr c
         \<and> ollama_generate env g ''tinyllama'' (make_prompt c q) = (Inr a, g')
         \<and> j = JObject [(''answer'', JString (response a))]"
proof (cases rule: query_paths [where env = env and s = s and q = q and g = g])
  case lookup_raises
  with assms show ?thesis by (simp add: query_lookup_raises)
next
  case extract_raises
  with assms show ?thesis by (simp add: query_extract_raises)
next
  case generate_raises
  with assms show ?thesis by (simp add: query_generate_raises)
next
  case (generate_returns r s' c a g')
  with assms have "j = JObject [(''answer'', JString (response a))]"
    by (simp add: query_generate_returns)
  with generate_returns show ?thesis by blast
qed

theorem query_returns_answer_witness:
  "result (query (stub_env \<lparr>documents = [[''Paris'']]\<rparr>) (0 :: nat) 0 '''')
     = Inr (JObject [(''answer'', JString
         ''Context:\<newline>Paris\<newline>\<newline>Question: \<newline>\<newline>Answer clearly and concisely:'')])
   \<and> (\<exists>r s' c a g'.
         collection_query (stub_env \<lparr>documents = [[''Paris'']]\<rparr>) (0 :: nat) [''''] 1 = (Inr r, s')
       \<and> extract_context r = Inr c
       \<and> ollama_generate (stub_env \<lparr>documents = [[''Paris'']]\<rparr> :: (nat, nat) env) 0
            ''tinyllama'' (make_prompt c '''') = (Inr a, g')
       \<and> JObject [(''answer'', JString
            ''Context:\<newline>Paris\<newline>\<newline>Question: \<newline>\<newline>Answer clearly and concisely:'')]
           = JObject [(''answer'', JString (response a))])"
proof -
  have h: "result (query (stub_env \<lparr>documents = [[''Paris'']]\<rparr>) (0 :: nat) 0 '''')
     = Inr (JObject [(''answer'', JString
         ''Context:\<newline>Paris\<newline>\<newline>Question: \<newline>\<newline>Answer clearly and concisely:'')])"
    by (simp add: query_def stub_defs extract_context_cases make_prompt_def)
  from query_returns_answer [OF h] h show ?thesis by blast
qed

subsection \<open>Exceptions\<close>

text \<open>
  C5: an exception raised by the lookup, or by the generation call, is the handler's result
  as it is. After a lookup that raised no other call is made; after a generation call that
  raised the trace holds the one lookup and the one generation call: nothing is tried
  again, and no answer is returned.
\<close>

theorem query_propagates_exceptions:
  "(collection_query env s [q] 1 = (Inl e, s') \<longrightarrow>
      result (query env s g q) = Inl e
    \<and> calls (query env s g q) = [CollectionQuery [q] 1])
   \<and> (collection_query env s [q] 1 = (Inr r, s')
      \<and> extract_context r = Inr c
      \<and> ollama_generate env g ''tinyllama'' (make_prompt c q) = (Inl e, g') \<longrightarrow>
        result (query env s g q) = Inl e
      \<and> calls (query env s g q)
          = [CollectionQuery [q] 1, OllamaGenerate ''tinyllama'' (make_prompt c q)])"
  by (simp add: query_lookup_raises query_generate_raises)

theorem query_propagates_exceptions_witness:
  "collection_query (store_down_env (LibraryError ''index corrupted'')) (0 :: nat) [''hi''] 1
     = (Inl (LibraryError ''index corrupted''), 0)
   \<and> result (query (store_down_env (LibraryError ''index corrupted'')) (0 :: nat) 0 ''hi'')
     = Inl (LibraryError ''index corrupted'')
   \<and> calls (query (store_down_env (LibraryError ''index corrupted'')) (0 :: nat) 0 ''hi'')
     = [CollectionQuery [''hi''] 1]
   \<and> collection_query (backend_down_env \<lparr>documents = [[''doc'']]\<rparr> (LibraryError ''model not found''))
       (0 :: nat) [''hi''] 1 = (Inr \<lparr>documents = [[''doc'']]\<rparr>, 0)
   \<and> extract_context \<lparr>documents = [[''doc'']]\<rparr> = Inr ''doc''
   \<and> ollama_generate
        (backend_down_env \<lparr>documents = [[''doc'']]\<rparr> (LibraryError ''model not found'') :: (nat, nat) env)
        0 ''tinyllama'' (make_prompt ''doc'' ''hi'') = (Inl (LibraryError ''model not found''), 1)
   \<and> result (query (backend_down_env \<lparr>documents = [[''doc'']]\<rparr> (LibraryError ''model not found''))
        (0 :: nat) 0 ''hi'') = Inl (LibraryError ''model not found'')
   \<and> calls (query (backend_down_env \<lparr>documents = [[''doc'']]\<rparr> (LibraryError ''model not found''))
        (0 :: nat) 0 ''hi'')
     = [CollectionQuery [''hi''] 1, OllamaGenerate ''tinyllama'' (make_prompt ''doc'' ''hi'')]"
proof -
  let ?e1 = "LibraryError ''index corrupted''"
  let ?e2 = "LibraryError ''model not found''"
  let ?r = "\<lparr>documents = [[''doc'']]\<rparr>"
  have a: "collection_query (store_down_env ?e1) (0 :: nat) [''hi''] 1 = (Inl ?e1, 0)"
    by (simp add: stub_defs)
  have b1: "collection_query (backend_down_env ?r ?e2) (0 :: nat) [''hi''] 1 = (Inr ?r, 0)"
    by (simp add: stub_defs)
  have b2: "extract_context ?r = Inr ''doc''"
    by (simp add: extract_context_cases)
  have b3: "ollama_generate (backend_down_env ?r ?e2 :: (nat, nat) env) 0 ''tinyllama''
      (make_prompt ''doc'' ''hi'') = (Inl ?e2, 1)"
    by (simp add: stub_defs)
  from query_propagates_exceptions
         [of "store_down_env ?e1" "0 :: nat" "''hi''" ?e1 "0 :: nat" 0 ?r "''doc''" "0 :: nat"]
       a
  have first: "result (query (store_down_env ?e1) (0 :: nat) 0 ''hi'') = Inl ?e1
    \<and> calls (query (store_down_env ?e1) (0 :: nat) 0 ''hi'') = [CollectionQuery [''hi''] 1]"
    by blast
  from query_propagates_exceptions
         [of "backend_down_env ?r ?e2" "0 :: nat" "''hi''" ?e2 "0 :: nat" 0 ?r "''doc''" "1 :: nat"]
       b1 b2 b3
  have second: "result (query (backend_down_env ?r ?e2) (0 :: nat) 0 ''hi'') = Inl ?e2
    \<and> calls (query (backend_down_env ?r ?e2) (0 :: nat) 0 ''hi'')
      = [CollectionQuery [''hi''] 1, OllamaGenerate ''tinyllama'' (make_prompt ''doc'' ''hi'')]"
    by blast
  from a b1 b2 b3 first second show ?thesis by blast
qed

subsection \<open>Determinism, and the store left alone\<close>

text \<open>
  C7: let the lookup leave the store as it found it, and let what the generation backend
  answers depend on the model and the prompt only, not on the backend's state. Then
  running the handler a second time, from the states the first run left, gives the same
  result and makes the same calls.
\<close>

theorem query_twice_same_response:
  assumes "snd (collection_query env s [q] 1) = s"
    and "\<forall>g1 g2 m p. fst (ollama_generate env g1 m p) = fst (ollama_generate env g2 m p)"
  shows "result (query env (store (query env s g q)) (backend (query env s g q)) q)
           = result (query env s g q)
       \<and> calls (query env (store (query env s g q)) (backend (query env s g q)) q)
           = calls (query env s g q)"
proof -
  have indep: "result (query env s g1 q) = result (query env s g2 q)
      \<and> calls (query env s g1 q) = calls (query env s g2 q)" for g1 g2
  proof (cases rule: query_paths [where env = env and s = s and q = q and g = g1])
    case lookup_raises
    then show ?thesis by (simp add: query_lookup_raises)
  next
    case extract_raises
    then show ?thesis by (simp add: query_extract_raises)
  next
    case (generate_raises r s' c e g')
    obtain y g'' where g2: "ollama_generate env g2 ''tinyllama'' (make_prompt c q) = (y, g'')"
      by (cases "ollama_generate env g2 ''tinyllama'' (make_prompt c q)")
    from assms(2) have "fst (ollama_generate env g2 ''tinyllama'' (make_prompt c q))
        = fst (ollama_generate env g1 ''tinyllama'' (make_prompt c q))"
      by blast
    with g2 generate_raises(3) have "y = Inl e" by simp
    with g2 generate_raises show ?thesis
      by (simp add: query_generate_raises)
  next
    case (generate_returns r s' c a g')
    obtain y g'' where g2: "ollama_generate env g2 ''tinyllama'' (make_prompt c q) = (y, g'')"
      by (cases "ollama_generate env g2 ''tinyllama'' (make_prompt c q)")
    from assms(2) have "fst (ollama_generate env g2 ''tinyllama'' (make_prompt c q))
        = fst (ollama_generate env g1 ''tinyllama'' (make_prompt c q))"
      by blast
    with g2 generate_returns(3) have "y = Inr a" by simp
    with g2 generate_returns show ?thesis
      by (simp add: query_generate_returns)
  qed
  from assms(1) have "store (query env s g q) = s"
    by (simp add: query_store)
  with indep [of "backend (query env s g q)" g] show ?thesis by simp
qed

theorem query_twice_same_response_witness:
  "snd (collection_query (stub_env \<lparr>documents = [[''doc'']]\<rparr>) [''doc''] [''hi''] 1) = [''doc'']
   \<and> (\<forall>g1 g2 m p. fst (ollama_generate (stub_env \<lparr>documents = [[''doc'']]\<rparr> :: (string list, nat) env) g1 m p)
        = fst (ollama_generate (stub_env \<lparr>documents = [[''doc'']]\<rparr> :: (string list, nat) env) g2 m p))
   \<and> backend (query (stub_env \<lparr>documents = [[''doc'']]\<rparr>) [''doc''] 0 ''hi'') = 1
   \<and> result (query (stub_env \<lparr>documents = [[''doc'']]\<rparr>) [''doc''] 1 ''hi'')
       = result (query (stub_env \<lparr>documents = [[''doc'']]\<rparr>) [''doc''] 0 ''hi'')
   \<and> calls (query (stub_env \<lparr>documents = [[''doc'']]\<rparr>) [''doc''] 1 ''hi'')
       = calls (query (stub_env \<lparr>documents = [[''doc'']]\<rparr>) [''doc''] 0 ''hi'')"
proof -
  let ?env = "stub_env \<lparr>documents = [[''doc'']]\<rparr> :: (string list, nat) env"
  have h1: "snd (collection_query ?env [''doc''] [''hi''] 1) = [''doc'']"
    by (simp add: stub_defs)
  have h2: "\<forall>g1 g2 m p. fst (ollama_generate ?env g1 m p) = fst (ollama_generate ?env g2 m p)"
    by (simp add: stub_defs)
  have st: "store (query ?env [''doc''] 0 ''hi'') = [''doc'']"
    by (simp add: query_def stub_defs extract_context_cases)
  have bk: "backend (query ?env [''doc''] 0 ''hi'') = 1"
    by (simp add: query_def stub_defs extract_context_cases)
  from query_twice_same_response [OF h1 h2, of 0] h1 h2 st bk
  show ?thesis by simp
qed

text \<open>
  C8: the state in which the handler leaves the store is the state in which its one lookup
  left it, so a lookup that reads only leaves the store as it was before the request; and
  the handler makes no other call than that lookup and the generation call.
\<close>

theorem query_leaves_store:
  "store (query env s g q) = snd (collection_query env s [q] 1)
   \<and> (snd (collection_query env s [q] 1) = s \<longrightarrow> store (query env s g q) = s)
   \<and> (\<forall>c \<in> set (calls (query env s g q)).
        c = CollectionQuery [q] 1 \<or> (is_OllamaGenerate c \<and> model c = ''tinyllama''))"
proof -
  have "\<forall>c \<in> set (calls (query env s g q)).
        c = CollectionQuery [q] 1 \<or> (is_OllamaGenerate c \<and> model c = ''tinyllama'')"
    by (cases rule: query_paths [where env = env and s = s and q = q and g = g])
      (simp_all add: query_path_simps)
  then show ?thesis by (simp add: query_store)
qed

theorem query_leaves_store_witness:
  "snd (collection_query (stub_env \<lparr>documents = [[''doc'']]\<rparr>) [''doc'', ''other''] [''hi''] 1)
     = [''doc'', ''other'']
   \<and> store (query (stub_env \<lparr>documents = [[''doc'']]\<rparr>) [''doc'', ''other''] 0 ''hi'')
     = [''doc'', ''other'']
   \<and> calls (query (stub_env \<lparr>documents = [[''doc'']]\<rparr>) [''doc'', ''other''] 0 ''hi'')
     = [CollectionQuery [''hi''] 1,
        OllamaGenerate ''tinyllama''
          ''Context:\<newline>doc\<newline>\<newline>Question: hi\<newline>\<newline>Answer clearly and concisely:'']"
proof -
  let ?env = "stub_env \<lparr>documents = [[''doc'']]\<rparr> :: (string list, nat) env"
  have h: "snd (collection_query ?env [''doc'', ''other''] [''hi''] 1) = [''doc'', ''other'']"
    by (simp add: stub_defs)
  have cs: "calls (query ?env [''doc'', ''other''] 0 ''hi'')
     = [CollectionQuery [''hi''] 1,
        OllamaGenerate ''tinyllama''
          ''Context:\<newline>doc\<newline>\<newline>Question: hi\<newline>\<newline>Answer clearly and concisely:'']"
    by (simp add: query_def stub_defs extract_context_cases make_prompt_def)
  from query_leaves_store [of ?env "[''doc'', ''other'']" 0 "''hi''"] h
  have "store (query ?env [''doc'', ''other''] 0 ''hi'') = [''doc'', ''other'']"
    by blast
  with h cs show ?thesis by blast
qed

subsection \<open>The lookup\<close>

text \<open>
  C9: for every question, the empty one too, the handler makes exactly one lookup, first of
  all its calls, with the question itself as the only query text and 1 as the number of
  results; it is the store's answer to this very lookup that the handler goes on with.
\<close>

theorem query_one_lookup:
  "filter is_CollectionQuery (calls (query env s g q)) = [CollectionQuery [q] 1]
   \<and> hd (calls (query env s g q)) = CollectionQuery [q] 1
   \<and> filter is_CollectionQuery (calls (query env s g '''')) = [CollectionQuery [''''] 1]"
proof -
  have "filter is_CollectionQuery (calls (query env s g q')) = [CollectionQuery [q'] 1]
      \<and> hd (calls (query env s g q')) = CollectionQuery [q'] 1" for q'
    by (cases rule: query_paths [where env = env and s = s and q = q' and g = g])
      (simp_all add: query_path_simps)
  from this [of q] this [of "''''"] show ?thesis by simp
qed

subsection \<open>The root handler\<close>

text \<open>
  C10: \<^verbatim>\<open>root()\<close> returns the same JSON object whatever the environment and the states
  of the store and of the backend: a \<open>message\<close> string and an \<open>endpoints\<close> object with the
  three endpoints. It makes no call and leaves both states as they were.
\<close>

theorem root_fixed:
  "root env s g =
     \<lparr>result = Inr (JObject
        [(''message'', JString ''NextWork RAG API is running''),
         (''endpoints'', JObject
            [(''POST /query'', JString ''Query the knowledge base with a question''),
             (''GET /docs'', JString ''Interactive API documentation (Swagger UI)''),
             (''GET /redoc'', JString ''Alternative API documentation (ReDoc)'')])]),
      calls = [], store = s, backend = g\<rparr>
   \<and> result (root env s g) = result (root env' s' g')"
  by (simp add: root_def root_payload_def)

end
